theory Spec2Isabelle
  imports Main "HOL-Library.Sublist"
begin

section \<open>The skill scaffolder \<^verbatim>\<open>scripts/init_skill.py\<close>\<close>

text \<open>
  The script creates a directory, four subdirectories and nine template files, printing
  one progress line after each creation. Python strings are modelled as \<^typ>\<open>string\<close>
  (byte strings: a character outside ASCII is its UTF-8 bytes), the file system as a map
  from absolute paths to nodes, and every exception as a value.
\<close>

subsection \<open>Strings\<close>

definition newline :: string where
  "newline = [CHR 0x0A]"

definition unlines :: "string list \<Rightarrow> string" where
  "unlines ls = concat (map (\<lambda>l. l @ newline) ls)"

fun join :: "string \<Rightarrow> string list \<Rightarrow> string" where
  "join sep [] = []"
| "join sep [x] = x"
| "join sep (x # y # ys) = x @ sep @ join sep (y # ys)"

text \<open>\<^verbatim>\<open>s.replace("-", "_")\<close>: both arguments are single characters.\<close>

definition replace_dash :: "string \<Rightarrow> string" where
  "replace_dash s = map (\<lambda>c. if c = CHR ''-'' then CHR ''_'' else c) s"

text \<open>
  \<^verbatim>\<open>str.title()\<close>: a character that follows a cased character is lowercased, any other
  is titlecased. The model knows the ASCII letters as the cased characters; a byte
  outside ASCII is left as it is.
\<close>

definition is_lower :: "char \<Rightarrow> bool" where
  "is_lower c = (97 \<le> (of_char c :: nat) \<and> (of_char c :: nat) \<le> 122)"

definition is_upper :: "char \<Rightarrow> bool" where
  "is_upper c = (65 \<le> (of_char c :: nat) \<and> (of_char c :: nat) \<le> 90)"

definition is_cased :: "char \<Rightarrow> bool" where
  "is_cased c = (is_lower c \<or> is_upper c)"

definition to_upper :: "char \<Rightarrow> char" where
  "to_upper c = (if is_lower c then char_of ((of_char c :: nat) - 32) else c)"

definition to_lower :: "char \<Rightarrow> char" where
  "to_lower c = (if is_upper c then char_of ((of_char c :: nat) + 32) else c)"

fun title_from :: "bool \<Rightarrow> string \<Rightarrow> string" where
  "title_from previous_is_cased [] = []"
| "title_from previous_is_cased (c # cs) =
     (if previous_is_cased then to_lower c else to_upper c) # title_from (is_cased c) cs"

definition title :: "string \<Rightarrow> string" where
  "title s = title_from False s"

subsection \<open>The templates\<close>

text \<open>
  Each template is the source's string literal, line by line; \<^const>\<open>unlines\<close> ends every
  line, the last one included, with a newline, as the triple-quoted literals do.
\<close>

definition readme_content :: "string \<Rightarrow> string" where
  \<open>readme_content skill_name = unlines
    [''# '' @ skill_name,
     '''',
     ''## Description'',
     '''',
     ''A brief description of what this skill does.'',
     '''',
     ''## Installation'',
     '''',
     ''```bash'',
     ''# Add installation instructions here'',
     ''```'',
     '''',
     ''## Usage'',
     '''',
     ''```bash'',
     ''# Add usage examples here'',
     ''```'',
     '''',
     ''## Features'',
     '''',
     ''- Feature 1'',
     ''- Feature 2'',
     ''- Feature 3'',
     '''',
     ''## Configuration'',
     '''',
     ''Describe any configuration options here.'',
     '''',
     ''## Examples'',
     '''',
     ''See the `examples/` directory for usage examples.'',
     '''',
     ''## Testing'',
     '''',
     ''```bash'',
     ''# Add testing instructions here'',
     ''```'',
     '''',
     ''## License'',
     '''',
     ''MIT'']\<close>

definition skill_json_content :: "string \<Rightarrow> string" where
  \<open>skill_json_content skill_name = unlines
    [''{'',
     ''  "name": "'' @ skill_name @ ''",'',
     ''  "version": "0.1.0",'',
     ''  "description": "Description of '' @ skill_name @ ''",'',
     ''  "author": "",'',
     ''  "license": "MIT",'',
     ''  "main": "src/main.py",'',
     ''  "dependencies": {}'',
     ''}'']\<close>

definition main_py_content :: "string \<Rightarrow> string" where
  \<open>main_py_content skill_name = unlines
    [''"""'',
     ''Main entry point for '' @ skill_name @ '' skill.'',
     ''"""'',
     '''',
     ''def main():'',
     ''    """'',
     ''    Main function for the skill.'',
     ''    """'',
     ''    print("Hello from '' @ skill_name @ ''!")'',
     ''    # Add your skill logic here'',
     '''',
     ''if __name__ == "__main__":'',
     ''    main()'']\<close>

text \<open>
  The literal of \<^verbatim>\<open>src/__init__.py\<close> is not triple-quoted and spells every line end as
  \<^verbatim>\<open>\\n\<close>: a backslash followed by the letter n.
\<close>

definition backslash_n :: string where
  "backslash_n = [CHR 0x5C, CHR ''n'']"

definition init_py_content :: "string \<Rightarrow> string" where
  \<open>init_py_content skill_name =
     ''"""'' @ backslash_n @ skill_name @ '' skill package.'' @ backslash_n @ ''"""'' @ backslash_n\<close>

definition gitignore_content :: string where
  \<open>gitignore_content = unlines
    [''# Python'',
     ''__pycache__/'',
     ''*.py[cod]'',
     ''*$py.class'',
     ''*.so'',
     ''.Python'',
     ''env/'',
     ''venv/'',
     ''ENV/'',
     ''build/'',
     ''develop-eggs/'',
     ''dist/'',
     ''downloads/'',
     ''eggs/'',
     ''.eggs/'',
     ''lib/'',
     ''lib64/'',
     ''parts/'',
     ''sdist/'',
     ''var/'',
     ''wheels/'',
     ''*.egg-info/'',
     ''.installed.cfg'',
     ''*.egg'',
     '''',
     ''# IDE'',
     ''.vscode/'',
     ''.idea/'',
     ''*.swp'',
     ''*.swo'',
     ''*~'',
     '''',
     ''# OS'',
     ''.DS_Store'',
     ''Thumbs.db'',
     '''',
     ''# Testing'',
     ''.pytest_cache/'',
     ''.coverage'',
     ''htmlcov/'',
     '''',
     ''# Logs'',
     ''*.log'']\<close>

definition test_content :: "string \<Rightarrow> string" where
  \<open>test_content skill_name = unlines
    [''"""'',
     ''Test suite for '' @ skill_name @ ''.'',
     ''"""'',
     '''',
     ''import unittest'',
     ''from src.main import main'',
     '''',
     '''',
     ''class Test'' @ title (replace_dash skill_name) @ ''(unittest.TestCase):'',
     ''    """Test cases for '' @ skill_name @ ''."""'',
     '''',
     ''    def test_main(self):'',
     ''        """Test the main function."""'',
     ''        # Add your tests here'',
     ''        self.assertTrue(True)'',
     '''',
     '''',
     ''if __name__ == "__main__":'',
     ''    unittest.main()'']\<close>

definition example_content :: "string \<Rightarrow> string" where
  \<open>example_content skill_name = unlines
    [''# Example Usage of '' @ skill_name,
     '''',
     ''This directory contains example usage of the '' @ skill_name @ '' skill.'',
     '''',
     ''## Basic Example'',
     '''',
     ''```python'',
     ''from src.main import main'',
     '''',
     ''main()'',
     ''```'',
     '''',
     ''Add more examples as needed.'']\<close>

definition docs_content :: "string \<Rightarrow> string" where
  \<open>docs_content skill_name = unlines
    [''# '' @ skill_name @ '' Documentation'',
     '''',
     ''## Overview'',
     '''',
     ''Detailed documentation for '' @ skill_name @ ''.'',
     '''',
     ''## API Reference'',
     '''',
     ''### main()'',
     '''',
     ''Main function for the skill.'',
     '''',
     ''**Returns:**'',
     ''- None'',
     '''',
     ''**Example:**'',
     ''```python'',
     ''from src.main import main'',
     ''main()'',
     ''```'',
     '''',
     ''## Advanced Usage'',
     '''',
     ''Add advanced usage documentation here.'']\<close>

subsection \<open>Paths as \<^verbatim>\<open>pathlib\<close> has them\<close>

text \<open>
  A POSIX \<^verbatim>\<open>Path\<close> is a root (\<^verbatim>\<open>""\<close>, \<^verbatim>\<open>"/"\<close> or \<^verbatim>\<open>"//"\<close>) and the list of its
  components. Parsing a string drops empty components and \<^verbatim>\<open>"."\<close> and keeps
  \<^verbatim>\<open>".."\<close>; joining with an absolute path gives that path.
\<close>

datatype PurePath = PurePath (path_root: string) (path_tail: "string list")

fun split_sep :: "string \<Rightarrow> string list" where
  "split_sep [] = [[]]"
| "split_sep (c # cs) =
     (if c = CHR ''/'' then [] # split_sep cs
      else (case split_sep cs of [] \<Rightarrow> [[c]] | x # xs \<Rightarrow> (c # x) # xs))"

definition splitroot :: "string \<Rightarrow> string \<times> string" where
  "splitroot p =
     (if take 1 p \<noteq> ''/'' then ([], p)
      else if take 1 (drop 1 p) \<noteq> ''/'' \<or> take 1 (drop 2 p) = ''/'' then (''/'', drop 1 p)
      else (''//'', drop 2 p))"

definition Path :: "string \<Rightarrow> PurePath" where
  "Path p = (case splitroot p of (r, rel) \<Rightarrow>
     PurePath r (filter (\<lambda>x. x \<noteq> [] \<and> x \<noteq> ''.'') (split_sep rel)))"

definition truediv :: "PurePath \<Rightarrow> string \<Rightarrow> PurePath" where
  "truediv self key =
     (if path_root (Path key) \<noteq> [] then Path key
      else PurePath (path_root self) (path_tail self @ path_tail (Path key)))"

definition parent :: "PurePath \<Rightarrow> PurePath" where
  "parent self =
     (if path_tail self = [] then self
      else PurePath (path_root self) (butlast (path_tail self)))"

definition str_path :: "PurePath \<Rightarrow> string" where
  "str_path self =
     (if path_root self = [] \<and> path_tail self = [] then ''.''
      else path_root self @ join ''/'' (path_tail self))"

subsection \<open>The file system and the process\<close>

text \<open>
  A node is a directory or a regular file with its content; the root directory always
  exists. There are no symbolic links. A system call may also be refused for a reason
  the tree does not show (permissions, a full or read-only disk): \<open>fault\<close> says which
  calls are refused and with which error. The output streams hold one entry for each
  call of \<^verbatim>\<open>print\<close>. The exceptions of the model are the \<^verbatim>\<open>OSError\<close>s of the system
  calls: writing to the output streams does not fail, a write that is accepted is
  complete, and a name has no NUL character, as no command-line argument has one.
\<close>

datatype node = Dir | File string

type_synonym path = "string list"

datatype errno =
  EPERM | ENOENT | EIO | EACCES | EEXIST | ENOTDIR | EISDIR | ENOSPC | EROFS | ENAMETOOLONG

datatype syscall = Sys_mkdir path | Sys_open path

record world =
  nodes :: "path \<rightharpoonup> node"
  cwd :: path
  fault :: "syscall \<Rightarrow> errno option"
  stdout :: "string list"
  stderr :: "string list"

datatype exn = OSError errno PurePath

definition lookup :: "(path \<rightharpoonup> node) \<Rightarrow> path \<Rightarrow> node option" where
  "lookup ns p = (if p = [] then Some Dir else ns p)"

text \<open>
  Path resolution: every component is looked up in a directory that must exist;
  \<^verbatim>\<open>".."\<close> steps to the parent (the root is its own parent). The node the last
  component names is not looked at.
\<close>

fun walk :: "(path \<rightharpoonup> node) \<Rightarrow> path \<Rightarrow> string list \<Rightarrow> errno + path" where
  "walk ns cur [] = Inr cur"
| "walk ns cur (c # cs) =
     (case lookup ns cur of
        None \<Rightarrow> Inl ENOENT
      | Some (File _) \<Rightarrow> Inl ENOTDIR
      | Some Dir \<Rightarrow> walk ns (if c = ''..'' then butlast cur else cur @ [c]) cs)"

definition start :: "PurePath \<Rightarrow> world \<Rightarrow> path" where
  "start self w = (if path_root self = [] then cwd w else [])"

definition resolve :: "PurePath \<Rightarrow> world \<Rightarrow> errno + path" where
  "resolve self w = walk (nodes w) (start self w) (path_tail self)"

definition os_mkdir :: "PurePath \<Rightarrow> world \<Rightarrow> exn + world" where
  "os_mkdir self w =
     (case resolve self w of
        Inl n \<Rightarrow> Inl (OSError n self)
      | Inr t \<Rightarrow>
          if lookup (nodes w) t \<noteq> None then Inl (OSError EEXIST self)
          else (case fault w (Sys_mkdir t) of
                  Some n \<Rightarrow> Inl (OSError n self)
                | None \<Rightarrow> Inr (w\<lparr>nodes := (nodes w)(t \<mapsto> Dir)\<rparr>)))"

definition is_dir :: "PurePath \<Rightarrow> world \<Rightarrow> bool" where
  "is_dir self w =
     (case resolve self w of Inl n \<Rightarrow> False | Inr t \<Rightarrow> lookup (nodes w) t = Some Dir)"

definition errno_of :: "exn \<Rightarrow> errno" where
  "errno_of e = (case e of OSError n p \<Rightarrow> n)"

text \<open>
  \<^verbatim>\<open>Path.mkdir(parents, exist_ok)\<close>: a missing parent (\<^verbatim>\<open>FileNotFoundError\<close>) is
  created first when \<open>parents\<close> is set; any other error is dropped when \<open>exist_ok\<close>
  is set and the path is a directory. A failure returns the world as the calls made so
  far have left it.
\<close>

function mkdir :: "bool \<Rightarrow> bool \<Rightarrow> PurePath \<Rightarrow> world \<Rightarrow> (exn \<times> world) + world" where
  "mkdir parents exist_ok self w =
     (case os_mkdir self w of
        Inr w' \<Rightarrow> Inr w'
      | Inl e \<Rightarrow>
          if errno_of e = ENOENT then
            (if \<not> parents \<or> parent self = self then Inl (e, w)
             else (case mkdir True True (parent self) w of
                     Inl x \<Rightarrow> Inl x
                   | Inr w1 \<Rightarrow> mkdir False exist_ok self w1))
          else if \<not> exist_ok \<or> \<not> is_dir self w then Inl (e, w)
          else Inr w)"
  by pat_completeness auto
termination
  by (relation "measure (\<lambda>(parents, exist_ok, self, w).
        2 * length (path_tail self) + (if parents then 1 else 0))")
     (auto simp: parent_def split: if_splits)

declare mkdir.simps [simp del]

text \<open>\<^verbatim>\<open>Path.write_text(data)\<close>: the file is opened for writing, created or truncated.\<close>

definition write_text :: "PurePath \<Rightarrow> string \<Rightarrow> world \<Rightarrow> exn + world" where
  "write_text self data w =
     (case resolve self w of
        Inl n \<Rightarrow> Inl (OSError n self)
      | Inr t \<Rightarrow>
          (case lookup (nodes w) t of
             Some Dir \<Rightarrow> Inl (OSError EISDIR self)
           | _ \<Rightarrow>
               (case fault w (Sys_open t) of
                  Some n \<Rightarrow> Inl (OSError n self)
                | None \<Rightarrow> Inr (w\<lparr>nodes := (nodes w)(t \<mapsto> File data)\<rparr>))))"

definition print :: "string \<Rightarrow> world \<Rightarrow> world" where
  "print s w = w\<lparr>stdout := stdout w @ [s]\<rparr>"

subsection \<open>Statements\<close>

text \<open>
  The body of \<^verbatim>\<open>create_skill_structure\<close> is a sequence of three kinds of statement. The
  sequence stops at the first exception, which it returns with the world reached.
\<close>

datatype stmt = Mkdir bool bool PurePath | Write_text PurePath string | Print string

fun exec :: "stmt \<Rightarrow> world \<Rightarrow> (exn \<times> world) + world" where
  "exec (Mkdir parents exist_ok p) w = mkdir parents exist_ok p w"
| "exec (Write_text p data) w =
     (case write_text p data w of Inl e \<Rightarrow> Inl (e, w) | Inr w' \<Rightarrow> Inr w')"
| "exec (Print s) w = Inr (print s w)"

fun run :: "stmt list \<Rightarrow> world \<Rightarrow> (exn \<times> world) + world" where
  "run [] w = Inr w"
| "run (s # ss) w = (case exec s w of Inl x \<Rightarrow> Inl x | Inr w' \<Rightarrow> run ss w')"

subsection \<open>\<^verbatim>\<open>create_skill_structure\<close>\<close>

definition tick :: string where
  "tick = [CHR 0xE2, CHR 0x9C, CHR 0x93]"

definition check_mark :: string where
  "check_mark = [CHR 0xE2, CHR 0x9C, CHR 0x85]"

definition cross_mark :: string where
  "cross_mark = [CHR 0xE2, CHR 0x9D, CHR 0x8C]"

definition directories :: "string list" where
  "directories = [''src'', ''tests'', ''docs'', ''examples'']"

definition Path_cwd :: "world \<Rightarrow> PurePath" where
  "Path_cwd w = PurePath ''/'' (cwd w)"

text \<open>\<^verbatim>\<open>if base_path:\<close> is false for \<^verbatim>\<open>None\<close> and for the empty string.\<close>

definition skill_dir_of :: "string \<Rightarrow> string option \<Rightarrow> world \<Rightarrow> PurePath" where
  "skill_dir_of skill_name base_path w =
     (case base_path of
        None \<Rightarrow> truediv (Path_cwd w) skill_name
      | Some b \<Rightarrow> if b \<noteq> [] then Path b else truediv (Path_cwd w) skill_name)"

definition body :: "string \<Rightarrow> PurePath \<Rightarrow> stmt list" where
  \<open>body skill_name skill_dir =
     [Mkdir True True skill_dir,
      Print (tick @ '' Created skill directory: '' @ str_path skill_dir)]
     @ concat (map (\<lambda>directory.
         [Mkdir False True (truediv skill_dir directory),
          Print (tick @ '' Created directory: '' @ directory @ ''/'')]) directories)
     @ [Write_text (truediv skill_dir ''README.md'') (readme_content skill_name),
        Print (tick @ '' Created README.md''),
        Write_text (truediv skill_dir ''skill.json'') (skill_json_content skill_name),
        Print (tick @ '' Created skill.json''),
        Write_text (truediv (truediv skill_dir ''src'') ''main.py'') (main_py_content skill_name),
        Print (tick @ '' Created src/main.py''),
        Write_text (truediv (truediv skill_dir ''src'') ''__init__.py'') (init_py_content skill_name),
        Print (tick @ '' Created src/__init__.py''),
        Write_text (truediv skill_dir ''.gitignore'') gitignore_content,
        Print (tick @ '' Created .gitignore''),
        Write_text (truediv (truediv skill_dir ''tests'') ''test_main.py'') (test_content skill_name),
        Print (tick @ '' Created tests/test_main.py''),
        Write_text (truediv (truediv skill_dir ''tests'') ''__init__.py'') [],
        Print (tick @ '' Created tests/__init__.py''),
        Write_text (truediv (truediv skill_dir ''examples'') ''example.md'') (example_content skill_name),
        Print (tick @ '' Created examples/example.md''),
        Write_text (truediv (truediv skill_dir ''docs'') ''api.md'') (docs_content skill_name),
        Print (tick @ '' Created docs/api.md''),
        Print (newline @ check_mark @ '' Skill '' @ [CHR 0x27] @ skill_name @ [CHR 0x27]
               @ '' initialized successfully at: '' @ str_path skill_dir),
        Print (newline @ ''Next steps:''),
        Print (''  1. cd '' @ str_path skill_dir),
        Print ''  2. Edit src/main.py to implement your skill logic'',
        Print ''  3. Update README.md with your skill's documentation'',
        Print ''  4. Add tests in tests/test_main.py'']\<close>

definition create_skill_structure ::
    "string \<Rightarrow> string option \<Rightarrow> world \<Rightarrow> (exn \<times> world) + world" where
  "create_skill_structure skill_name base_path w =
     run (body skill_name (skill_dir_of skill_name base_path w)) w"

subsection \<open>\<^verbatim>\<open>main\<close>\<close>

text \<open>
  \<^verbatim>\<open>str(e)\<close> of an \<^verbatim>\<open>OSError\<close> with a file name is
  \<^verbatim>\<open>[Errno n] message: 'name'\<close>, the name as \<^verbatim>\<open>repr\<close> prints it: in single quotes,
  or in double quotes when it contains a single quote and no double quote, with
  backslash escapes for the quote, the backslash and the control characters.
\<close>

definition errno_number :: "errno \<Rightarrow> string" where
  "errno_number n = (case n of
     EPERM \<Rightarrow> ''1'' | ENOENT \<Rightarrow> ''2'' | EIO \<Rightarrow> ''5'' | EACCES \<Rightarrow> ''13'' | EEXIST \<Rightarrow> ''17''
   | ENOTDIR \<Rightarrow> ''20'' | EISDIR \<Rightarrow> ''21'' | ENOSPC \<Rightarrow> ''28'' | EROFS \<Rightarrow> ''30''
   | ENAMETOOLONG \<Rightarrow> ''36'')"

definition strerror :: "errno \<Rightarrow> string" where
  "strerror n = (case n of
     EPERM \<Rightarrow> ''Operation not permitted''
   | ENOENT \<Rightarrow> ''No such file or directory''
   | EIO \<Rightarrow> ''Input/output error''
   | EACCES \<Rightarrow> ''Permission denied''
   | EEXIST \<Rightarrow> ''File exists''
   | ENOTDIR \<Rightarrow> ''Not a directory''
   | EISDIR \<Rightarrow> ''Is a directory''
   | ENOSPC \<Rightarrow> ''No space left on device''
   | EROFS \<Rightarrow> ''Read-only file system''
   | ENAMETOOLONG \<Rightarrow> ''File name too long'')"

definition hex_digit :: "nat \<Rightarrow> char" where
  "hex_digit n = ''0123456789abcdef'' ! (n mod 16)"

definition repr_char :: "char \<Rightarrow> char \<Rightarrow> string" where
  "repr_char quote c =
     (if c = quote \<or> c = CHR 0x5C then [CHR 0x5C, c]
      else if c = CHR 0x09 then [CHR 0x5C, CHR ''t'']
      else if c = CHR 0x0A then [CHR 0x5C, CHR ''n'']
      else if c = CHR 0x0D then [CHR 0x5C, CHR ''r'']
      else if (of_char c :: nat) < 32 \<or> (of_char c :: nat) = 127 then
        [CHR 0x5C, CHR ''x'', hex_digit ((of_char c :: nat) div 16), hex_digit (of_char c)]
      else [c])"

definition repr :: "string \<Rightarrow> string" where
  "repr s =
     (let quote = (if CHR 0x27 \<in> set s \<and> CHR 0x22 \<notin> set s then CHR 0x22 else CHR 0x27)
      in [quote] @ concat (map (repr_char quote) s) @ [quote])"

definition str_exn :: "exn \<Rightarrow> string" where
  "str_exn e = (case e of OSError n p \<Rightarrow>
     ''[Errno '' @ errno_number n @ ''] '' @ strerror n @ '': '' @ repr (str_path p))"

text \<open>
  \<^verbatim>\<open>parser.parse_args()\<close> is the standard library's: it either leaves the process with
  a status (2 when the command line is malformed, as when the required \<^verbatim>\<open>skill_name\<close>
  is missing) before \<^verbatim>\<open>main\<close> does anything else, or returns the name and the optional
  path. What it prints itself is not modelled. \<^verbatim>\<open>main\<close> returns the exit status of the
  process and the world it leaves.
\<close>

datatype parse_result = SystemExit nat | Namespace string "string option"

definition main :: "parse_result \<Rightarrow> world \<Rightarrow> nat \<times> world" where
  "main args w =
     (case args of
        SystemExit status \<Rightarrow> (status, w)
      | Namespace skill_name path \<Rightarrow>
          (case create_skill_structure skill_name path w of
             Inr w' \<Rightarrow> (0, w')
           | Inl (e, w') \<Rightarrow>
               (1, w'\<lparr>stderr := stderr w' @ [cross_mark @ '' Error: '' @ str_exn e]\<rparr>)))"

subsection \<open>Growth of the tree\<close>

text \<open>
  No statement removes a node or turns a directory into something else. One world
  extends another when every node is still there, every directory is still a directory,
  and the working directory, the refused calls and the error stream are the same.
\<close>

definition dirs_le :: "(path \<rightharpoonup> node) \<Rightarrow> (path \<rightharpoonup> node) \<Rightarrow> bool" where
  "dirs_le ns ns' = (\<forall>p. ns p = Some Dir \<longrightarrow> ns' p = Some Dir)"

definition extends :: "world \<Rightarrow> world \<Rightarrow> bool" where
  "extends w w' =
     (cwd w' = cwd w \<and> fault w' = fault w \<and> stderr w' = stderr w
      \<and> dirs_le (nodes w) (nodes w')
      \<and> (\<forall>p. nodes w p \<noteq> None \<longrightarrow> nodes w' p \<noteq> None))"

subsection \<open>The scaffold plan\<close>

text \<open>
  The specification derives from the request a \<^emph>\<open>ScaffoldPlan\<close>: an ordered sequence of
  pairs of a relative path and either a content or the mark of a directory. This
  definition follows those words; the body of \<^verbatim>\<open>create_skill_structure\<close> is compared
  with it below.
\<close>

datatype entry = Directory | Content string

type_synonym plan = "(string list \<times> entry) list"

definition ScaffoldPlan :: "string \<Rightarrow> plan" where
  "ScaffoldPlan name =
     [([''src''], Directory),
      ([''tests''], Directory),
      ([''docs''], Directory),
      ([''examples''], Directory),
      ([''README.md''], Content (readme_content name)),
      ([''skill.json''], Content (skill_json_content name)),
      ([''src'', ''main.py''], Content (main_py_content name)),
      ([''src'', ''__init__.py''], Content (init_py_content name)),
      ([''.gitignore''], Content gitignore_content),
      ([''tests'', ''test_main.py''], Content (test_content name)),
      ([''tests'', ''__init__.py''], Content []),
      ([''examples'', ''example.md''], Content (example_content name)),
      ([''docs'', ''api.md''], Content (docs_content name))]"

definition layout :: "string list list" where
  "layout =
     [[''src''], [''tests''], [''docs''], [''examples''],
      [''README.md''], [''skill.json''], [''src'', ''main.py''], [''src'', ''__init__.py''],
      [''.gitignore''], [''tests'', ''test_main.py''], [''tests'', ''__init__.py''],
      [''examples'', ''example.md''], [''docs'', ''api.md'']]"

text \<open>
  A plan entry applied at a target: the statement that creates it, the progress line
  printed after it, and its effect on the tree once the target is resolved.
\<close>

definition at :: "PurePath \<Rightarrow> string list \<Rightarrow> PurePath" where
  "at target rel = PurePath (path_root target) (path_tail target @ rel)"

fun stmt_of :: "PurePath \<Rightarrow> string list \<times> entry \<Rightarrow> stmt" where
  "stmt_of target (rel, Directory) = Mkdir False True (at target rel)"
| "stmt_of target (rel, Content data) = Write_text (at target rel) data"

fun progress_line :: "string list \<times> entry \<Rightarrow> string" where
  "progress_line (rel, Directory) = tick @ '' Created directory: '' @ join ''/'' rel @ ''/''"
| "progress_line (rel, Content data) = tick @ '' Created '' @ join ''/'' rel"

definition entry_stmts :: "PurePath \<Rightarrow> string list \<times> entry \<Rightarrow> stmt list" where
  "entry_stmts target x = [stmt_of target x, Print (progress_line x)]"

fun node_of :: "entry \<Rightarrow> node" where
  "node_of Directory = Dir"
| "node_of (Content data) = File data"

fun apply_entry :: "path \<Rightarrow> string list \<times> entry \<Rightarrow> (path \<rightharpoonup> node) \<Rightarrow> (path \<rightharpoonup> node)" where
  "apply_entry T (rel, e) ns = ns(T @ rel \<mapsto> node_of e)"

definition plain_plan :: "plan \<Rightarrow> bool" where
  "plain_plan es = list_all (\<lambda>x. fst x \<noteq> [] \<and> ''..'' \<notin> set (fst x)) es"

text \<open>
  The lines of the report: one for the target, one for each entry, and the summary with
  the next steps.
\<close>

definition root_line :: "PurePath \<Rightarrow> string" where
  "root_line target = tick @ '' Created skill directory: '' @ str_path target"

definition report :: "string \<Rightarrow> PurePath \<Rightarrow> string list" where
  "report name target = root_line target # map progress_line (ScaffoldPlan name)"

definition summary :: "string \<Rightarrow> PurePath \<Rightarrow> string list" where
  \<open>summary name target =
     [newline @ check_mark @ '' Skill '' @ [CHR 0x27] @ name @ [CHR 0x27]
        @ '' initialized successfully at: '' @ str_path target,
      newline @ ''Next steps:'',
      ''  1. cd '' @ str_path target,
      ''  2. Edit src/main.py to implement your skill logic'',
      ''  3. Update README.md with your skill's documentation'',
      ''  4. Add tests in tests/test_main.py'']\<close>

text \<open>
The files a statement list writes, and its statements other than \<^verbatim>\<open>print\<close>.
\<close>

fun written :: "stmt list \<Rightarrow> (PurePath \<times> string) list" where
  "written [] = []"
| "written (Write_text p data # ss) = (p, data) # written ss"
| "written (s # ss) = written ss"

fun creations :: "stmt list \<Rightarrow> stmt list" where
  "creations [] = []"
| "creations (Print s # ss) = creations ss"
| "creations (s # ss) = s # creations ss"

subsection \<open>Reading the result\<close>

text \<open>
  \<^verbatim>\<open>Path.read_text()\<close>, as an observation of the world a run leaves: the content of the
  regular file a path resolves to.
\<close>

definition read_text :: "PurePath \<Rightarrow> world \<Rightarrow> string option" where
  "read_text self w =
     (case resolve self w of
        Inl n \<Rightarrow> None
      | Inr t \<Rightarrow> (case lookup (nodes w) t of Some (File data) \<Rightarrow> Some data | _ \<Rightarrow> None))"

definition holds_file :: "world \<Rightarrow> PurePath \<Rightarrow> bool" where
  "holds_file w p = (read_text p w \<noteq> None)"

subsection \<open>Names\<close>

text \<open>
A name that is one path component for \<^verbatim>\<open>pathlib\<close>.
\<close>

definition plain_name :: "string \<Rightarrow> bool" where
  "plain_name name = (name \<noteq> [] \<and> name \<noteq> ''.'' \<and> CHR ''/'' \<notin> set name)"

subsection \<open>Valid JSON\<close>

text \<open>
  A recogniser of the JSON grammar (RFC 8259): one pass over the characters, with the
  state of the token being read, the stack of the open objects and arrays, and what may
  come next. Bytes outside ASCII are accepted inside strings as they are.
\<close>

datatype ctx = In_object | In_array

datatype expect =
  E_value | E_value_or_close | E_key_or_close | E_key | E_colon | E_comma_or_close | E_done

datatype num_state = N_minus | N_zero | N_int | N_dot | N_frac | N_e | N_esign | N_exp

datatype lex =
  Idle | In_string bool | Escape bool | Unicode bool nat | Number num_state | Literal string

type_synonym json_state = "lex \<times> ctx list \<times> expect"

definition is_ws :: "char \<Rightarrow> bool" where
  "is_ws c = (c = CHR 0x20 \<or> c = CHR 0x09 \<or> c = CHR 0x0A \<or> c = CHR 0x0D)"

definition is_digit :: "char \<Rightarrow> bool" where
  "is_digit c = (48 \<le> (of_char c :: nat) \<and> (of_char c :: nat) \<le> 57)"

definition is_hex :: "char \<Rightarrow> bool" where
  "is_hex c = (is_digit c \<or> c \<in> set ''abcdefABCDEF'')"

definition expects_value :: "expect \<Rightarrow> bool" where
  "expects_value ex = (ex = E_value \<or> ex = E_value_or_close)"

definition value_done :: "ctx list \<Rightarrow> expect" where
  "value_done st = (if st = [] then E_done else E_comma_or_close)"

definition idle_step :: "char \<Rightarrow> ctx list \<Rightarrow> expect \<Rightarrow> json_state option" where
  \<open>idle_step c st ex =
     (if is_ws c then Some (Idle, st, ex)
      else if c = CHR ''{'' then
        (if expects_value ex then Some (Idle, In_object # st, E_key_or_close) else None)
      else if c = CHR ''['' then
        (if expects_value ex then Some (Idle, In_array # st, E_value_or_close) else None)
      else if c = CHR ''}'' then
        (case st of
           In_object # st' \<Rightarrow>
             if ex = E_key_or_close \<or> ex = E_comma_or_close
             then Some (Idle, st', value_done st') else None
         | _ \<Rightarrow> None)
      else if c = CHR '']'' then
        (case st of
           In_array # st' \<Rightarrow>
             if ex = E_value_or_close \<or> ex = E_comma_or_close
             then Some (Idle, st', value_done st') else None
         | _ \<Rightarrow> None)
      else if c = CHR '','' then
        (if ex = E_comma_or_close then
           (case st of
              [] \<Rightarrow> None
            | In_object # st' \<Rightarrow> Some (Idle, st, E_key)
            | In_array # st' \<Rightarrow> Some (Idle, st, E_value))
         else None)
      else if c = CHR '':'' then
        (if ex = E_colon then Some (Idle, st, E_value) else None)
      else if c = CHR 0x22 then
        (if ex = E_key \<or> ex = E_key_or_close then Some (In_string True, st, ex)
         else if expects_value ex then Some (In_string False, st, ex)
         else None)
      else if expects_value ex then
        (if c = CHR ''-'' then Some (Number N_minus, st, ex)
         else if c = CHR ''0'' then Some (Number N_zero, st, ex)
         else if is_digit c then Some (Number N_int, st, ex)
         else if c = CHR ''t'' then Some (Literal ''rue'', st, ex)
         else if c = CHR ''f'' then Some (Literal ''alse'', st, ex)
         else if c = CHR ''n'' then Some (Literal ''ull'', st, ex)
         else None)
      else None)\<close>

definition is_exp :: "char \<Rightarrow> bool" where
  "is_exp c = (c = CHR ''e'' \<or> c = CHR ''E'')"

fun num_step :: "num_state \<Rightarrow> char \<Rightarrow> num_state option" where
  "num_step N_minus c =
     (if c = CHR ''0'' then Some N_zero else if is_digit c then Some N_int else None)"
| "num_step N_zero c =
     (if c = CHR ''.'' then Some N_dot else if is_exp c then Some N_e else None)"
| "num_step N_int c =
     (if is_digit c then Some N_int else if c = CHR ''.'' then Some N_dot
      else if is_exp c then Some N_e else None)"
| "num_step N_dot c = (if is_digit c then Some N_frac else None)"
| "num_step N_frac c =
     (if is_digit c then Some N_frac else if is_exp c then Some N_e else None)"
| "num_step N_e c =
     (if c = CHR ''+'' \<or> c = CHR ''-'' then Some N_esign
      else if is_digit c then Some N_exp else None)"
| "num_step N_esign c = (if is_digit c then Some N_exp else None)"
| "num_step N_exp c = (if is_digit c then Some N_exp else None)"

definition num_final :: "num_state \<Rightarrow> bool" where
  "num_final s = (s = N_zero \<or> s = N_int \<or> s = N_frac \<or> s = N_exp)"

fun step :: "json_state \<Rightarrow> char \<Rightarrow> json_state option" where
  "step (Idle, st, ex) c = idle_step c st ex"
| "step (In_string key, st, ex) c =
     (if c = CHR 0x22 then Some (Idle, st, if key then E_colon else value_done st)
      else if c = CHR 0x5C then Some (Escape key, st, ex)
      else if (of_char c :: nat) < 32 then None
      else Some (In_string key, st, ex))"
| "step (Escape key, st, ex) c =
     (if c \<in> set [CHR 0x22, CHR 0x5C, CHR ''/'', CHR ''b'', CHR ''f'', CHR ''n'', CHR ''r'', CHR ''t'']
      then Some (In_string key, st, ex)
      else if c = CHR ''u'' then Some (Unicode key 4, st, ex)
      else None)"
| "step (Unicode key n, st, ex) c =
     (if is_hex c then Some (if n \<le> 1 then In_string key else Unicode key (n - 1), st, ex)
      else None)"
| "step (Number s, st, ex) c =
     (case num_step s c of
        Some s' \<Rightarrow> Some (Number s', st, ex)
      | None \<Rightarrow> if num_final s then idle_step c st (value_done st) else None)"
| "step (Literal rest, st, ex) c =
     (case rest of
        [] \<Rightarrow> None
      | r # rs \<Rightarrow>
          if c \<noteq> r then None
          else if rs = [] then Some (Idle, st, value_done st)
          else Some (Literal rs, st, ex))"

fun scan :: "json_state \<Rightarrow> string \<Rightarrow> json_state option" where
  "scan s [] = Some s"
| "scan s (c # cs) = (case step s c of None \<Rightarrow> None | Some s' \<Rightarrow> scan s' cs)"

fun accepting :: "json_state \<Rightarrow> bool" where
  "accepting (Idle, st, ex) = (ex = E_done)"
| "accepting (Number s, st, ex) = (num_final s \<and> st = [])"
| "accepting (lx, st, ex) = False"

definition valid_json :: "string \<Rightarrow> bool" where
  "valid_json text =
     (case scan (Idle, [], E_value) text of None \<Rightarrow> False | Some s \<Rightarrow> accepting s)"

text \<open>
A character that may stand in a JSON string as it is.
\<close>

definition safe_char :: "char \<Rightarrow> bool" where
  "safe_char c = (c \<noteq> CHR 0x22 \<and> c \<noteq> CHR 0x5C \<and> 32 \<le> (of_char c :: nat))"

subsection \<open>Example worlds\<close>

text \<open>
  The scenario of the specification: the working directory \<^verbatim>\<open>/home/u\<close>, nothing in it,
  no call refused; and the world the run of \<^verbatim>\<open>my-skill\<close> leaves.
\<close>

definition example_world :: world where
  "example_world =
     \<lparr>nodes = [[''home''] \<mapsto> Dir, [''home'', ''u''] \<mapsto> Dir],
      cwd = [''home'', ''u''],
      fault = (\<lambda>call. None),
      stdout = [],
      stderr = []\<rparr>"

definition example_target :: PurePath where
  "example_target = PurePath ''/'' [''home'', ''u'', ''my-skill'']"

definition example_after :: world where
  "example_after = example_world
     \<lparr>nodes := fold (apply_entry [''home'', ''u'', ''my-skill'']) (ScaffoldPlan ''my-skill'')
                 ((nodes example_world)([''home'', ''u'', ''my-skill''] \<mapsto> Dir)),
      stdout := report ''my-skill'' example_target @ summary ''my-skill'' example_target\<rparr>"




text \<open>
  A world in which the target exists with a README of its own, and another working
  directory; and the world the run with \<^verbatim>\<open>--path /home/u/my-skill\<close> leaves.
\<close>

definition used_world :: world where
  "used_world = example_world
     \<lparr>nodes := (nodes example_world)
        ([''home'', ''u'', ''my-skill''] \<mapsto> Dir,
         [''home'', ''u'', ''my-skill'', ''README.md''] \<mapsto> File ''my notes''),
      cwd := [''home'']\<rparr>"

definition used_after :: world where
  "used_after = used_world
     \<lparr>nodes := fold (apply_entry [''home'', ''u'', ''my-skill'']) (ScaffoldPlan ''my-skill'')
                 (nodes used_world),
      stdout := report ''my-skill'' example_target @ summary ''my-skill'' example_target\<rparr>"


definition injected_name :: string where
  \<open>injected_name = ''x", "y": "z''\<close>



section \<open>Properties\<close>

subsection \<open>Path resolution and the growth of the tree\<close>

text \<open>
  Resolution goes component by component, is lexical when no component is \<^verbatim>\<open>..\<close>, and
  is not disturbed when the tree grows.
\<close>

lemma walk_append:
  "walk ns cur (xs @ ys) = (case walk ns cur xs of Inl n \<Rightarrow> Inl n | Inr t \<Rightarrow> walk ns t ys)"
  by (induction xs arbitrary: cur) (auto split: option.splits node.splits)

lemma walk_plain: "walk ns cur cs = Inr t \<Longrightarrow> ''..'' \<notin> set cs \<Longrightarrow> t = cur @ cs"
  by (induction cs arbitrary: cur) (fastforce split: option.splits node.splits)+

lemma lookup_dirs_le: "dirs_le ns ns' \<Longrightarrow> lookup ns p = Some Dir \<Longrightarrow> lookup ns' p = Some Dir"
  by (auto simp: dirs_le_def lookup_def split: if_splits)

lemma walk_mono: "dirs_le ns ns' \<Longrightarrow> walk ns cur cs = Inr t \<Longrightarrow> walk ns' cur cs = Inr t"
proof (induction cs arbitrary: cur)
  case Nil
  then show ?case by simp
next
  case (Cons c cs)
  from Cons.prems(2) have d: "lookup ns cur = Some Dir"
    by (auto split: option.splits node.splits)
  with Cons.prems(1) have "lookup ns' cur = Some Dir" by (rule lookup_dirs_le)
  with Cons d show ?case by simp
qed

text \<open>
Every statement, whether it succeeds or raises, leaves a world that extends the one it found.
\<close>

lemma extends_refl: "extends w w"
  by (simp add: extends_def dirs_le_def)

lemma extends_trans: "extends a b \<Longrightarrow> extends b c \<Longrightarrow> extends a c"
  by (auto simp: extends_def dirs_le_def)

lemma os_mkdir_extends: "os_mkdir p w = Inr w' \<Longrightarrow> extends w w' \<and> stdout w' = stdout w"
  by (auto simp: os_mkdir_def extends_def dirs_le_def lookup_def split: sum.splits if_splits option.splits)

lemma write_text_extends: "write_text p d w = Inr w' \<Longrightarrow> extends w w' \<and> stdout w' = stdout w"
  by (auto simp: write_text_def extends_def dirs_le_def lookup_def split: sum.splits if_splits option.splits node.splits)

lemma mkdir_extends:
  "(mkdir ps eo p w = Inr w' \<or> mkdir ps eo p w = Inl (e, w')) \<Longrightarrow> extends w w' \<and> stdout w' = stdout w"
proof (induction ps eo p w arbitrary: w' e rule: mkdir.induct)
  case (1 parents exist_ok self w)
  show ?case
  proof (cases "os_mkdir self w")
    case (Inr w1)
    with "1.prems" have "w' = w1" by (simp add: mkdir.simps)
    with Inr show ?thesis by (simp add: os_mkdir_extends)
  next
    case (Inl x)
    show ?thesis
    proof (cases "errno_of x = ENOENT \<and> \<not> (\<not> parents \<or> parent self = self)")
      case False
      with Inl "1.prems" have "w' = w"
        by (auto simp: mkdir.simps split: if_splits)
      then show ?thesis by (simp add: extends_refl)
    next
      case True
      with Inl have eq: "mkdir parents exist_ok self w =
          (case mkdir True True (parent self) w of
             Inl x \<Rightarrow> Inl x | Inr w1 \<Rightarrow> mkdir False exist_ok self w1)"
        by (subst mkdir.simps) simp
      show ?thesis
      proof (cases "mkdir True True (parent self) w")
        case (Inl y)
        with eq "1.prems" have "mkdir True True (parent self) w = Inl (e, w')"
          by auto
        with "1.IH"(1)[OF \<open>os_mkdir self w = Inl x\<close>] True show ?thesis by blast
      next
        case (Inr w1)
        with "1.IH"(1)[OF \<open>os_mkdir self w = Inl x\<close>] True
        have a: "extends w w1 \<and> stdout w1 = stdout w" by blast
        from Inr eq "1.prems"
        have "mkdir False exist_ok self w1 = Inr w' \<or> mkdir False exist_ok self w1 = Inl (e, w')"
          by auto
        with "1.IH"(2)[OF \<open>os_mkdir self w = Inl x\<close> _ _ Inr] True
        have "extends w1 w' \<and> stdout w' = stdout w1" by blast
        with a show ?thesis by (auto intro: extends_trans)
      qed
    qed
  qed
qed

subsection \<open>The body is the plan\<close>

text \<open>
  The statements of \<^verbatim>\<open>create_skill_structure\<close> are: the creation of the target and its
  line, for every entry of the plan its creation and its line, and the summary.
\<close>

lemma truediv_plain: "truediv target ''src'' = at target [''src'']"
  "truediv target ''tests'' = at target [''tests'']"
  "truediv target ''docs'' = at target [''docs'']"
  "truediv target ''examples'' = at target [''examples'']"
  "truediv target ''README.md'' = at target [''README.md'']"
  "truediv target ''skill.json'' = at target [''skill.json'']"
  "truediv target ''.gitignore'' = at target [''.gitignore'']"
  "truediv (at target [d]) ''main.py'' = at target [d, ''main.py'']"
  "truediv (at target [d]) ''__init__.py'' = at target [d, ''__init__.py'']"
  "truediv (at target [d]) ''test_main.py'' = at target [d, ''test_main.py'']"
  "truediv (at target [d]) ''example.md'' = at target [d, ''example.md'']"
  "truediv (at target [d]) ''api.md'' = at target [d, ''api.md'']"
  by (simp_all add: truediv_def Path_def splitroot_def at_def)

lemma body_plan:
  "body name target =
     [Mkdir True True target, Print (root_line target)]
     @ concat (map (entry_stmts target) (ScaffoldPlan name))
     @ map Print (summary name target)"
  by (simp add: body_def directories_def ScaffoldPlan_def entry_stmts_def root_line_def
      summary_def truediv_plain)

subsection \<open>Runs\<close>

lemma run_append:
  "run (xs @ ys) w = (case run xs w of Inl x \<Rightarrow> Inl x | Inr w1 \<Rightarrow> run ys w1)"
  by (induction xs arbitrary: w) (auto split: sum.splits)

lemma run_prints: "run (map Print ls) w = Inr (w\<lparr>stdout := stdout w @ ls\<rparr>)"
  by (induction ls arbitrary: w) (auto simp: print_def)

lemma exec_extends:
  "exec s w = Inr w' \<or> exec s w = Inl (e, w') \<Longrightarrow> extends w w'"
proof (cases s)
  case (Mkdir ps eo p)
  assume "exec s w = Inr w' \<or> exec s w = Inl (e, w')"
  with Mkdir show ?thesis using mkdir_extends[of ps eo p w w' e] by simp
next
  case (Write_text p d)
  assume "exec s w = Inr w' \<or> exec s w = Inl (e, w')"
  with Write_text show ?thesis
    by (auto simp: extends_refl write_text_extends split: sum.splits)
next
  case (Print l)
  assume "exec s w = Inr w' \<or> exec s w = Inl (e, w')"
  with Print show ?thesis by (auto simp: print_def extends_def dirs_le_def)
qed

lemma run_extends:
  "run ss w = Inr w' \<or> run ss w = Inl (e, w') \<Longrightarrow> extends w w'"
proof (induction ss arbitrary: w)
  case Nil
  then show ?case by (simp add: extends_refl)
next
  case (Cons s ss)
  show ?case
  proof (cases "exec s w")
    case (Inl x)
    with Cons.prems have "exec s w = Inl (e, w')" by simp
    then show ?thesis using exec_extends by blast
  next
    case (Inr w1)
    with Cons.prems have "run ss w1 = Inr w' \<or> run ss w1 = Inl (e, w')" by simp
    then have "extends w1 w'" by (rule Cons.IH)
    moreover from Inr have "extends w w1" using exec_extends by blast
    ultimately show ?thesis by (blast intro: extends_trans)
  qed
qed


subsection \<open>\<^verbatim>\<open>mkdir\<close>\<close>

text \<open>
  After a successful \<^verbatim>\<open>mkdir\<close> the path is a directory; on a directory \<^verbatim>\<open>mkdir\<close> with
  \<open>exist_ok\<close> changes nothing; and what \<^verbatim>\<open>mkdir\<close> creates lies on the way to its path.
\<close>

lemma resolve_at:
  "resolve target w = Inr T \<Longrightarrow> resolve (at target rel) w = walk (nodes w) T rel"
  by (simp add: resolve_def at_def start_def walk_append)

lemma resolve_mono: "extends w w' \<Longrightarrow> resolve p w = Inr t \<Longrightarrow> resolve p w' = Inr t"
proof -
  assume e: "extends w w'" and r: "resolve p w = Inr t"
  from e have "start p w' = start p w" "dirs_le (nodes w) (nodes w')"
    by (simp_all add: extends_def start_def)
  with r show ?thesis unfolding resolve_def by (simp add: walk_mono)
qed

lemma mkdir_is_dir: "mkdir ps eo p w = Inr w' \<Longrightarrow> is_dir p w'"
proof (induction ps eo p w arbitrary: w' rule: mkdir.induct)
  case (1 parents exist_ok self w)
  show ?case
  proof (cases "os_mkdir self w")
    case (Inr w1)
    with "1.prems" have w': "w' = w1" by (simp add: mkdir.simps)
    from Inr obtain t where t: "resolve self w = Inr t" "w1 = w\<lparr>nodes := (nodes w)(t \<mapsto> Dir)\<rparr>"
      by (auto simp: os_mkdir_def split: sum.splits if_splits option.splits)
    from Inr have "extends w w1" by (simp add: os_mkdir_extends)
    with t(1) have "resolve self w1 = Inr t" by (rule resolve_mono[rotated])
    moreover from t(2) have "lookup (nodes w1) t = Some Dir" by (simp add: lookup_def)
    ultimately show ?thesis using w' by (simp add: is_dir_def)
  next
    case (Inl x)
    show ?thesis
    proof (cases "errno_of x = ENOENT \<and> \<not> (\<not> parents \<or> parent self = self)")
      case False
      with Inl "1.prems" show ?thesis
        by (auto simp: mkdir.simps split: if_splits)
    next
      case True
      with Inl have eq: "mkdir parents exist_ok self w =
          (case mkdir True True (parent self) w of
             Inl x \<Rightarrow> Inl x | Inr w1 \<Rightarrow> mkdir False exist_ok self w1)"
        by (subst mkdir.simps) simp
      with "1.prems" obtain w1 where w1: "mkdir True True (parent self) w = Inr w1"
        "mkdir False exist_ok self w1 = Inr w'"
        by (auto split: sum.splits)
      from "1.IH"(2)[OF Inl _ _ w1(1) w1(2)] True show ?thesis by blast
    qed
  qed
qed


lemma mkdir_frame:
  "mkdir ps eo p w = Inr w' \<Longrightarrow> ''..'' \<notin> set (path_tail p) \<Longrightarrow> nodes w' q \<noteq> nodes w q
     \<Longrightarrow> prefix q (start p w @ path_tail p)"
proof (induction ps eo p w arbitrary: w' rule: mkdir.induct)
  case (1 parents exist_ok self w)
  show ?case
  proof (cases "os_mkdir self w")
    case (Inr w1)
    with "1.prems" have w': "w' = w1" by (simp add: mkdir.simps)
    from Inr obtain t where t: "resolve self w = Inr t" "w1 = w\<lparr>nodes := (nodes w)(t \<mapsto> Dir)\<rparr>"
      by (auto simp: os_mkdir_def split: sum.splits if_splits option.splits)
    from t(1) "1.prems"(2) have "t = start self w @ path_tail self"
      by (simp add: resolve_def walk_plain)
    with t(2) w' "1.prems"(3) show ?thesis by (auto split: if_splits)
  next
    case (Inl x)
    show ?thesis
    proof (cases "errno_of x = ENOENT \<and> \<not> (\<not> parents \<or> parent self = self)")
      case False
      with Inl "1.prems" show ?thesis
        by (auto simp: mkdir.simps split: if_splits)
    next
      case True
      with Inl have eq: "mkdir parents exist_ok self w =
          (case mkdir True True (parent self) w of
             Inl x \<Rightarrow> Inl x | Inr w1 \<Rightarrow> mkdir False exist_ok self w1)"
        by (subst mkdir.simps) simp
      with "1.prems" obtain w1 where w1: "mkdir True True (parent self) w = Inr w1"
        "mkdir False exist_ok self w1 = Inr w'"
        by (auto split: sum.splits)
      from w1(1) have "extends w w1" using mkdir_extends by blast
      then have st: "start self w1 = start self w" by (simp add: extends_def start_def)
      from True have ne: "path_tail self \<noteq> []" by (auto simp: parent_def)
      then have pt: "path_tail (parent self) = butlast (path_tail self)"
        "start (parent self) w = start self w"
        by (simp_all add: parent_def start_def)
      from "1.prems"(2) have nd: "''..'' \<notin> set (path_tail (parent self))"
        using pt(1) by (auto dest: in_set_butlastD)
      consider "nodes w1 q \<noteq> nodes w q" | "nodes w' q \<noteq> nodes w1 q"
        using "1.prems"(3) by metis
      then show ?thesis
      proof cases
        case 1
        from "1.IH"(1)[OF Inl _ _ w1(1) nd 1] True
        have "prefix q (start self w @ butlast (path_tail self))" using pt by simp
        moreover have "prefix (start self w @ butlast (path_tail self)) (start self w @ path_tail self)"
          by (simp add: prefixeq_butlast)
        ultimately show ?thesis by (rule prefix_order.trans)
      next
        case 2
        from "1.IH"(2)[OF Inl _ _ w1(1) w1(2) "1.prems"(2) 2] True st show ?thesis by simp
      qed
    qed
  qed
qed

subsection \<open>Executing the plan\<close>

text \<open>
  Once the target resolves to \<open>T\<close>, a plan entry that is executed successfully sets the
  node at \<open>T @ rel\<close>; executed where that node is already in place, it changes nothing.
\<close>

lemma exec_entry:
  assumes R: "resolve target w = Inr T"
    and rel: "rel \<noteq> []" "''..'' \<notin> set rel"
    and ex: "exec (stmt_of target (rel, e)) w = Inr w1"
  shows "w1 = w\<lparr>nodes := (nodes w)(T @ rel \<mapsto> node_of e)\<rparr>
         \<and> walk (nodes w) T rel = Inr (T @ rel)
         \<and> (e \<noteq> Directory \<longrightarrow> fault w (Sys_open (T @ rel)) = None)"
proof (cases e)
  case Directory
  with ex have m: "mkdir False True (at target rel) w = Inr w1" by simp
  show ?thesis
  proof (cases "os_mkdir (at target rel) w")
    case (Inr w2)
    with m have "w1 = w2" by (simp add: mkdir.simps)
    with Inr obtain t where t: "resolve (at target rel) w = Inr t"
      "w1 = w\<lparr>nodes := (nodes w)(t \<mapsto> Dir)\<rparr>"
      by (auto simp: os_mkdir_def split: sum.splits if_splits option.splits)
    from t(1) R have wk: "walk (nodes w) T rel = Inr t" by (simp add: resolve_at)
    with rel have "t = T @ rel" by (simp add: walk_plain)
    with t wk Directory show ?thesis by simp
  next
    case (Inl x)
    with m have d: "is_dir (at target rel) w" "w1 = w"
      by (auto simp: mkdir.simps split: if_splits)
    then obtain t where t: "resolve (at target rel) w = Inr t" "lookup (nodes w) t = Some Dir"
      by (auto simp: is_dir_def split: sum.splits)
    from t(1) R have wk: "walk (nodes w) T rel = Inr t" by (simp add: resolve_at)
    with rel have tt: "t = T @ rel" by (simp add: walk_plain)
    with t(2) rel have "nodes w (T @ rel) = Some Dir" by (simp add: lookup_def)
    then have "(nodes w)(T @ rel \<mapsto> Dir) = nodes w" by (simp add: fun_upd_idem)
    with d(2) wk tt Directory show ?thesis by simp
  qed
next
  case (Content data)
  with ex have m: "write_text (at target rel) data w = Inr w1" by (simp split: sum.splits)
  then obtain t where t: "resolve (at target rel) w = Inr t"
    "fault w (Sys_open t) = None" "w1 = w\<lparr>nodes := (nodes w)(t \<mapsto> File data)\<rparr>"
    by (auto simp: write_text_def split: sum.splits option.splits node.splits)
  from t(1) R have wk: "walk (nodes w) T rel = Inr t" by (simp add: resolve_at)
  with rel have "t = T @ rel" by (simp add: walk_plain)
  with t wk Content show ?thesis by simp
qed


lemma fold_apply_other:
  "q \<notin> (\<lambda>x. T @ fst x) ` set es \<Longrightarrow> fold (apply_entry T) es ns q = ns q"
  by (induction es arbitrary: ns) auto

lemma fold_apply_in:
  "distinct (map fst es) \<Longrightarrow> (rel, e) \<in> set es
     \<Longrightarrow> fold (apply_entry T) es ns (T @ rel) = Some (node_of e)"
proof (induction es arbitrary: ns)
  case Nil
  then show ?case by simp
next
  case (Cons x es)
  show ?case
  proof (cases "(rel, e) \<in> set es")
    case True
    with Cons show ?thesis by simp
  next
    case False
    with Cons.prems have x: "x = (rel, e)" by simp
    with Cons.prems(1) have "rel \<notin> fst ` set es" by simp
    then have "T @ rel \<notin> (\<lambda>x. T @ fst x) ` set es" by auto
    then have "fold (apply_entry T) es (apply_entry T x ns) (T @ rel) = apply_entry T x ns (T @ rel)"
      by (rule fold_apply_other)
    with x show ?thesis by simp
  qed
qed

lemma run_entry_Cons:
  "run (entry_stmts target x @ ss) w =
     (case exec (stmt_of target x) w of
        Inl a \<Rightarrow> Inl a
      | Inr w1 \<Rightarrow> run ss (print (progress_line x) w1))"
  by (simp add: entry_stmts_def split: sum.splits)

lemma run_plan:
  assumes "resolve target w = Inr T" "plain_plan es"
      "run (concat (map (entry_stmts target) es)) w = Inr w'"
  shows "nodes w' = fold (apply_entry T) es (nodes w)
     \<and> stdout w' = stdout w @ map progress_line es
     \<and> (\<forall>x \<in> set es. walk (nodes w') T (fst x) = Inr (T @ fst x)
            \<and> (snd x \<noteq> Directory \<longrightarrow> fault w' (Sys_open (T @ fst x)) = None))"
  using assms
proof (induction es arbitrary: w)
  case Nil
  then show ?case by simp
next
  case (Cons x es)
  obtain rel e where x: "x = (rel, e)" by (cases x)
  from Cons.prems(2) x have rel: "rel \<noteq> []" "''..'' \<notin> set rel" and pl: "plain_plan es"
    by (simp_all add: plain_plan_def)
  from Cons.prems(3) obtain w1 where w1: "exec (stmt_of target x) w = Inr w1"
    and rest: "run (concat (map (entry_stmts target) es)) (print (progress_line x) w1) = Inr w'"
    by (auto simp: run_entry_Cons split: sum.splits)
  let ?w2 = "print (progress_line x) w1"
  from exec_entry[OF Cons.prems(1) rel w1[unfolded x]]
  have eff: "w1 = w\<lparr>nodes := (nodes w)(T @ rel \<mapsto> node_of e)\<rparr>"
    "walk (nodes w) T rel = Inr (T @ rel)"
    "e \<noteq> Directory \<longrightarrow> fault w (Sys_open (T @ rel)) = None" by blast+
  from w1 have "extends w w1" using exec_extends by blast
  moreover have "extends w1 ?w2" by (simp add: extends_def print_def dirs_le_def)
  ultimately have e2: "extends w ?w2" by (rule extends_trans)
  from e2 Cons.prems(1) have r2: "resolve target ?w2 = Inr T" by (rule resolve_mono)
  from Cons.IH[OF r2 pl rest]
  have ih: "nodes w' = fold (apply_entry T) es (nodes ?w2)"
    "stdout w' = stdout ?w2 @ map progress_line es"
    "\<forall>x \<in> set es. walk (nodes w') T (fst x) = Inr (T @ fst x)
            \<and> (snd x \<noteq> Directory \<longrightarrow> fault w' (Sys_open (T @ fst x)) = None)" by blast+
  from rest have e3: "extends ?w2 w'" using run_extends by blast
  with e2 have e4: "extends w w'" by (rule extends_trans)
  then have dl: "dirs_le (nodes w) (nodes w')" and fl: "fault w' = fault w"
    by (simp_all add: extends_def)
  from dl eff(2) have "walk (nodes w') T rel = Inr (T @ rel)" by (rule walk_mono)
  moreover from fl eff(3) have "e \<noteq> Directory \<longrightarrow> fault w' (Sys_open (T @ rel)) = None"
    by simp
  moreover from ih(1) eff(1) x have "nodes w' = fold (apply_entry T) (x # es) (nodes w)"
    by (simp add: print_def)
  moreover from ih(2) eff(1) have "stdout w' = stdout w @ map progress_line (x # es)"
    by (simp add: print_def)
  ultimately show ?case using ih(3) x by simp
qed

lemma resolve_stdout [simp]: "resolve p (w\<lparr>stdout := s\<rparr>) = resolve p w"
  by (simp add: resolve_def start_def)


subsection \<open>Successful runs\<close>

text \<open>
  A successful run: the target resolves to a directory \<open>T\<close>, the tree is the one the
  creation of the target left with the entries of the plan set below \<open>T\<close>, and the
  report is on the standard output.
\<close>

lemma plain_ScaffoldPlan: "plain_plan (ScaffoldPlan name)"
  by (simp add: plain_plan_def ScaffoldPlan_def)

lemma distinct_ScaffoldPlan: "distinct (map fst (ScaffoldPlan name))"
  by (simp add: ScaffoldPlan_def)

lemma create_success:
  assumes ok: "create_skill_structure name base w = Inr w'"
  shows "\<exists>wa T. mkdir True True (skill_dir_of name base w) w = Inr wa
     \<and> resolve (skill_dir_of name base w) wa = Inr T
     \<and> lookup (nodes wa) T = Some Dir
     \<and> nodes w' = fold (apply_entry T) (ScaffoldPlan name) (nodes wa)
     \<and> stdout w' = stdout w @ report name (skill_dir_of name base w)
                      @ summary name (skill_dir_of name base w)
     \<and> resolve (skill_dir_of name base w) w' = Inr T
     \<and> lookup (nodes w') T = Some Dir
     \<and> (\<forall>x \<in> set (ScaffoldPlan name). walk (nodes w') T (fst x) = Inr (T @ fst x)
            \<and> (snd x \<noteq> Directory \<longrightarrow> fault w' (Sys_open (T @ fst x)) = None))"
proof -
  let ?sd = "skill_dir_of name base w"
  let ?plan = "concat (map (entry_stmts ?sd) (ScaffoldPlan name))"
  from ok have r: "run ([Mkdir True True ?sd, Print (root_line ?sd)] @ ?plan
      @ map Print (summary name ?sd)) w = Inr w'"
    by (simp add: create_skill_structure_def body_plan)
  then obtain wa where wa: "mkdir True True ?sd w = Inr wa"
    and r2: "run (?plan @ map Print (summary name ?sd)) (print (root_line ?sd) wa) = Inr w'"
    by (auto split: sum.splits)
  let ?wb = "print (root_line ?sd) wa"
  from r2 obtain wc where wc: "run ?plan ?wb = Inr wc"
    and w': "w' = wc\<lparr>stdout := stdout wc @ summary name ?sd\<rparr>"
    by (auto simp: run_append run_prints split: sum.splits)
  from wa have "is_dir ?sd wa" by (rule mkdir_is_dir)
  then obtain T where T: "resolve ?sd wa = Inr T" "lookup (nodes wa) T = Some Dir"
    by (auto simp: is_dir_def split: sum.splits)
  from T(1) have Tb: "resolve ?sd ?wb = Inr T" by (simp add: print_def)
  from run_plan[OF Tb plain_ScaffoldPlan wc]
  have p: "nodes wc = fold (apply_entry T) (ScaffoldPlan name) (nodes ?wb)"
    "stdout wc = stdout ?wb @ map progress_line (ScaffoldPlan name)"
    "\<forall>x \<in> set (ScaffoldPlan name). walk (nodes wc) T (fst x) = Inr (T @ fst x)
            \<and> (snd x \<noteq> Directory \<longrightarrow> fault wc (Sys_open (T @ fst x)) = None)"
    by blast+
  from wc have e: "extends ?wb wc" using run_extends by blast
  from e Tb have Tc: "resolve ?sd wc = Inr T" by (rule resolve_mono)
  from e have "dirs_le (nodes ?wb) (nodes wc)" by (simp add: extends_def)
  moreover from T(2) have "lookup (nodes ?wb) T = Some Dir" by (simp add: print_def)
  ultimately have Dc: "lookup (nodes wc) T = Some Dir" by (rule lookup_dirs_le)
  from wa have "stdout wa = stdout w" using mkdir_extends by blast
  with p(2) w' have so: "stdout w' = stdout w @ report name ?sd @ summary name ?sd"
    by (simp add: print_def report_def)
  from p(1) w' have "nodes w' = fold (apply_entry T) (ScaffoldPlan name) (nodes wa)"
    by (simp add: print_def)
  moreover from Tc w' have "resolve ?sd w' = Inr T" by simp
  moreover from Dc w' have "lookup (nodes w') T = Some Dir" by simp
  moreover from p(3) w' have "\<forall>x \<in> set (ScaffoldPlan name).
      walk (nodes w') T (fst x) = Inr (T @ fst x)
      \<and> (snd x \<noteq> Directory \<longrightarrow> fault w' (Sys_open (T @ fst x)) = None)" by simp
  ultimately show ?thesis using wa T so by blast
qed

lemma example_run: "create_skill_structure ''my-skill'' None example_world = Inr example_after"
  by (simp add: create_skill_structure_def body_def skill_dir_of_def example_world_def
      example_after_def example_target_def report_def summary_def root_line_def
      ScaffoldPlan_def Path_cwd_def truediv_def Path_def splitroot_def directories_def
      mkdir.simps os_mkdir_def resolve_def start_def lookup_def write_text_def print_def
      is_dir_def errno_of_def parent_def str_path_def)

subsection \<open>The generated \<^verbatim>\<open>src/__init__.py\<close>\<close>

text \<open>
  C9 (as amended). For every name the content of \<^verbatim>\<open>src/__init__.py\<close> is three double
  quotes, a backslash and the letter n, the name, the text \<^verbatim>\<open> skill package.\<close>, a
  backslash and the letter n, three double quotes, and a backslash and the letter n. The
  template contributes no line break: the content has a newline character exactly when
  the name has one.
\<close>

theorem init_py_literal_backslash_n:
  \<open>init_py_content name =
     ''"""'' @ [CHR 0x5C, CHR ''n''] @ name @ '' skill package.'' @ [CHR 0x5C, CHR ''n'']
       @ ''"""'' @ [CHR 0x5C, CHR ''n'']
   \<and> (CHR 0x0A \<in> set (init_py_content name) \<longleftrightarrow> CHR 0x0A \<in> set name)\<close>
  by (auto simp: init_py_content_def backslash_n_def)

theorem init_py_literal_backslash_n_witness:
  \<open>init_py_content ''my-skill'' =
     ''"""'' @ [CHR 0x5C, CHR ''n''] @ ''my-skill skill package.'' @ [CHR 0x5C, CHR ''n'']
       @ ''"""'' @ [CHR 0x5C, CHR ''n'']
   \<and> CHR 0x0A \<notin> set (init_py_content ''my-skill'')\<close>
  using init_py_literal_backslash_n [of "''my-skill''"] by simp

text \<open>
  The claim as stated, a single physical line for every name, fails for a name that
  contains a newline character.
\<close>

theorem init_py_single_line_counterexample:
  "CHR 0x0A \<in> set (init_py_content [CHR ''a'', CHR 0x0A, CHR ''b''])"
  by (simp add: init_py_content_def backslash_n_def)

subsection \<open>Running the scaffold again\<close>





subsection \<open>Failures\<close>






subsection \<open>The report\<close>







subsection \<open>The plan\<close>

text \<open>
  A second example: the target exists already and holds a README of its own, the
  working directory is another one, and the target is given as \<^verbatim>\<open>--path\<close>.
\<close>

lemma used_run:
  "create_skill_structure ''my-skill'' (Some ''/home/u/my-skill'') used_world = Inr used_after"
  by (simp add: create_skill_structure_def body_def skill_dir_of_def example_world_def
      used_world_def used_after_def example_target_def report_def summary_def root_line_def
      ScaffoldPlan_def Path_cwd_def truediv_def Path_def splitroot_def directories_def
      mkdir.simps os_mkdir_def resolve_def start_def lookup_def write_text_def print_def
      is_dir_def errno_of_def parent_def str_path_def)

lemma scaffold_reads:
  assumes ok: "create_skill_structure name base w = Inr w'"
    and x: "(rel, e) \<in> set (ScaffoldPlan name)"
  shows "resolve (at (skill_dir_of name base w) rel) w' \<noteq> Inl n
     \<and> (\<forall>t. resolve (at (skill_dir_of name base w) rel) w' = Inr t
            \<longrightarrow> lookup (nodes w') t = Some (node_of e))"
proof -
  let ?sd = "skill_dir_of name base w"
  from create_success[OF ok] obtain wa :: world and T where
    T: "resolve ?sd w' = Inr T"
    and n: "nodes w' = fold (apply_entry T) (ScaffoldPlan name) (nodes wa)"
    and f: "\<forall>x \<in> set (ScaffoldPlan name). walk (nodes w') T (fst x) = Inr (T @ fst x)
            \<and> (snd x \<noteq> Directory \<longrightarrow> fault w' (Sys_open (T @ fst x)) = None)"
    by blast
  from f x have "walk (nodes w') T rel = Inr (T @ rel)" by auto
  with T have r: "resolve (at ?sd rel) w' = Inr (T @ rel)" by (simp add: resolve_at)
  from x plain_ScaffoldPlan[of name] have "rel \<noteq> []"
    by (auto simp: plain_plan_def list_all_iff)
  moreover from distinct_ScaffoldPlan x have "nodes w' (T @ rel) = Some (node_of e)"
    unfolding n by (rule fold_apply_in)
  ultimately have "lookup (nodes w') (T @ rel) = Some (node_of e)" by (simp add: lookup_def)
  with r show ?thesis by simp
qed

lemma scaffold_read_text:
  assumes ok: "create_skill_structure name base w = Inr w'"
    and x: "(rel, Content data) \<in> set (ScaffoldPlan name)"
  shows "read_text (at (skill_dir_of name base w) rel) w' = Some data"
  using scaffold_reads[OF ok x]
  by (auto simp: read_text_def split: sum.splits)

lemma scaffold_is_dir:
  assumes ok: "create_skill_structure name base w = Inr w'"
    and x: "(rel, Directory) \<in> set (ScaffoldPlan name)"
  shows "is_dir (at (skill_dir_of name base w) rel) w'"
  using scaffold_reads[OF ok x]
  by (auto simp: is_dir_def split: sum.splits)

lemma creations_body:
  "creations (body name target) = Mkdir True True target # map (stmt_of target) (ScaffoldPlan name)"
  by (simp add: body_plan ScaffoldPlan_def entry_stmts_def summary_def)

text \<open>
  C8. The creating statements of the scaffold are the creation of the target followed by
  the entries of \<^const>\<open>ScaffoldPlan\<close>, in its order; the plan is a function of the name
  alone. So two successful runs with the same name and the same target path, whatever the
  file systems and working directories they start from, produce the same directories
  and the same content in every generated file.
\<close>

theorem plan_deterministic:
  "creations (body name target) = Mkdir True True target # map (stmt_of target) (ScaffoldPlan name)
   \<and> (create_skill_structure name base1 w1 = Inr w1'
        \<and> create_skill_structure name base2 w2 = Inr w2'
        \<and> skill_dir_of name base1 w1 = target \<and> skill_dir_of name base2 w2 = target
      \<longrightarrow> (\<forall>(rel, e) \<in> set (ScaffoldPlan name).
             case e of
               Directory \<Rightarrow> is_dir (at target rel) w1' \<and> is_dir (at target rel) w2'
             | Content data \<Rightarrow> read_text (at target rel) w1' = Some data
                                \<and> read_text (at target rel) w2' = Some data))"
proof -
  have "\<forall>(rel, e) \<in> set (ScaffoldPlan name).
          case e of
            Directory \<Rightarrow> is_dir (at target rel) w1' \<and> is_dir (at target rel) w2'
          | Content data \<Rightarrow> read_text (at target rel) w1' = Some data
                             \<and> read_text (at target rel) w2' = Some data"
    if runs: "create_skill_structure name base1 w1 = Inr w1'"
      "create_skill_structure name base2 w2 = Inr w2'"
      and t: "skill_dir_of name base1 w1 = target" "skill_dir_of name base2 w2 = target"
  proof (clarify)
    fix rel e assume x: "(rel, e) \<in> set (ScaffoldPlan name)"
    show "case e of
            Directory \<Rightarrow> is_dir (at target rel) w1' \<and> is_dir (at target rel) w2'
          | Content data \<Rightarrow> read_text (at target rel) w1' = Some data
                             \<and> read_text (at target rel) w2' = Some data"
    proof (cases e)
      case Directory
      with x scaffold_is_dir[OF runs(1), of rel] scaffold_is_dir[OF runs(2), of rel] t
      show ?thesis by simp
    next
      case (Content data)
      with x scaffold_read_text[OF runs(1), of rel data]
        scaffold_read_text[OF runs(2), of rel data] t
      show ?thesis by simp
    qed
  qed
  with creations_body show ?thesis by blast
qed

text \<open>The two examples agree on the README, whatever was there before.\<close>

theorem plan_deterministic_witness:
  "create_skill_structure ''my-skill'' None example_world = Inr example_after
   \<and> create_skill_structure ''my-skill'' (Some ''/home/u/my-skill'') used_world = Inr used_after
   \<and> read_text (at example_target [''README.md'']) example_after = Some (readme_content ''my-skill'')
   \<and> read_text (at example_target [''README.md'']) used_after = Some (readme_content ''my-skill'')
   \<and> read_text (at example_target [''README.md'']) used_world = Some ''my notes''"
proof -
  have sd: "skill_dir_of ''my-skill'' None example_world = example_target"
    "skill_dir_of ''my-skill'' (Some ''/home/u/my-skill'') used_world = example_target"
    by (simp_all add: skill_dir_of_def Path_cwd_def example_world_def
        example_target_def truediv_def Path_def splitroot_def)
  have old: "read_text (at example_target [''README.md'']) used_world = Some ''my notes''"
    by (simp add: read_text_def at_def example_target_def used_world_def example_world_def
        resolve_def start_def lookup_def)
  have "([''README.md''], Content (readme_content ''my-skill'')) \<in> set (ScaffoldPlan ''my-skill'')"
    by (simp add: ScaffoldPlan_def)
  with plan_deterministic [of "''my-skill''" example_target None example_world example_after
      "Some ''/home/u/my-skill''" used_world used_after] example_run used_run sd old
  show ?thesis by fastforce
qed

subsection \<open>The name in the generated files\<close>





subsection \<open>The directory a run leaves\<close>

lemma written_body:
  "written (body name target) =
     [(at target [''README.md''], readme_content name),
      (at target [''skill.json''], skill_json_content name),
      (at target [''src'', ''main.py''], main_py_content name),
      (at target [''src'', ''__init__.py''], init_py_content name),
      (at target [''.gitignore''], gitignore_content),
      (at target [''tests'', ''test_main.py''], test_content name),
      (at target [''tests'', ''__init__.py''], []),
      (at target [''examples'', ''example.md''], example_content name),
      (at target [''docs'', ''api.md''], docs_content name)]"
  by (simp add: body_plan ScaffoldPlan_def entry_stmts_def summary_def)

lemma layout_plan: "map fst (ScaffoldPlan name) = layout"
  by (simp add: ScaffoldPlan_def layout_def)

lemma skill_dir_of_None_absolute: "path_root (skill_dir_of name None w) \<noteq> []"
  by (simp add: skill_dir_of_def truediv_def Path_cwd_def)

text \<open>
  C1 (as amended). The scaffold writes nine files, each a fixed template with the name
  substituted (two of them, \<^verbatim>\<open>.gitignore\<close> and \<^verbatim>\<open>tests/__init__.py\<close>, do not mention the
  name). When \<^verbatim>\<open>--path\<close> is absent, the target has no \<^verbatim>\<open>..\<close> component and nothing
  existed below the target before the run (it was missing or an empty directory), then
  after a successful run the entries below the target are exactly the thirteen of the
  layout, four directories and nine files, each with the kind and content of the plan.
\<close>

theorem scaffold_layout:
  assumes ok: "create_skill_structure name None w = Inr w'"
    and plain: "''..'' \<notin> set (path_tail (skill_dir_of name None w))"
    and empty: "\<forall>q. strict_prefix (path_tail (skill_dir_of name None w)) q \<longrightarrow> nodes w q = None"
  shows "written (body name (skill_dir_of name None w)) =
     [(at (skill_dir_of name None w) [''README.md''], readme_content name),
      (at (skill_dir_of name None w) [''skill.json''], skill_json_content name),
      (at (skill_dir_of name None w) [''src'', ''main.py''], main_py_content name),
      (at (skill_dir_of name None w) [''src'', ''__init__.py''], init_py_content name),
      (at (skill_dir_of name None w) [''.gitignore''], gitignore_content),
      (at (skill_dir_of name None w) [''tests'', ''test_main.py''], test_content name),
      (at (skill_dir_of name None w) [''tests'', ''__init__.py''], []),
      (at (skill_dir_of name None w) [''examples'', ''example.md''], example_content name),
      (at (skill_dir_of name None w) [''docs'', ''api.md''], docs_content name)]
   \<and> {q. strict_prefix (path_tail (skill_dir_of name None w)) q \<and> nodes w' q \<noteq> None}
       = (\<lambda>rel. path_tail (skill_dir_of name None w) @ rel) ` set layout
   \<and> (\<forall>(rel, e) \<in> set (ScaffoldPlan name).
         nodes w' (path_tail (skill_dir_of name None w) @ rel) = Some (node_of e))
   \<and> map fst (ScaffoldPlan name) = layout \<and> distinct layout \<and> length layout = 13"
proof -
  let ?sd = "skill_dir_of name None w"
  let ?T = "path_tail ?sd"
  from create_success[OF ok] obtain wa :: world and T where
    wa: "mkdir True True ?sd w = Inr wa"
    and T: "resolve ?sd wa = Inr T"
    and n: "nodes w' = fold (apply_entry T) (ScaffoldPlan name) (nodes wa)"
    by blast
  have st: "start ?sd wa = []" "start ?sd w = []"
    by (simp_all add: start_def skill_dir_of_None_absolute)
  from T st have "walk (nodes wa) [] ?T = Inr T" by (simp add: resolve_def)
  from walk_plain[OF this plain] have TT: "T = ?T" by simp
  have below: "nodes wa q = None" if q: "strict_prefix ?T q" for q
  proof (rule ccontr)
    assume "nodes wa q \<noteq> None"
    with empty q have "nodes wa q \<noteq> nodes w q" by simp
    from mkdir_frame[OF wa plain this] st have "prefix q ?T" by simp
    with q show False by (auto simp: strict_prefix_def)
  qed
  have kinds: "\<forall>(rel, e) \<in> set (ScaffoldPlan name). nodes w' (?T @ rel) = Some (node_of e)"
    using distinct_ScaffoldPlan[of name] unfolding n TT
    by (auto intro: fold_apply_in)
  have ne: "\<forall>rel \<in> set layout. rel \<noteq> []" by (simp add: layout_def)
  have "{q. strict_prefix ?T q \<and> nodes w' q \<noteq> None} = (\<lambda>rel. ?T @ rel) ` set layout"
  proof (intro set_eqI iffI)
    fix q assume "q \<in> {q. strict_prefix ?T q \<and> nodes w' q \<noteq> None}"
    then have q: "strict_prefix ?T q" "nodes w' q \<noteq> None" by simp_all
    show "q \<in> (\<lambda>rel. ?T @ rel) ` set layout"
    proof (rule ccontr)
      assume "q \<notin> (\<lambda>rel. ?T @ rel) ` set layout"
      then have "q \<notin> (\<lambda>x. ?T @ fst x) ` set (ScaffoldPlan name)"
        unfolding layout_plan[of name, symmetric] by auto
      then have "nodes w' q = nodes wa q"
        unfolding n TT by (rule fold_apply_other)
      with below[OF q(1)] q(2) show False by simp
    qed
  next
    fix q assume "q \<in> (\<lambda>rel. ?T @ rel) ` set layout"
    then obtain rel where rel: "rel \<in> set layout" "q = ?T @ rel" by auto
    from rel(1) obtain e where "(rel, e) \<in> set (ScaffoldPlan name)"
      unfolding layout_plan[of name, symmetric] by auto
    with kinds have "nodes w' (?T @ rel) = Some (node_of e)" by auto
    moreover from rel(1) ne have "rel \<noteq> []" by blast
    then have "strict_prefix ?T (?T @ rel)" by (simp add: strict_prefix_def)
    ultimately show "q \<in> {q. strict_prefix ?T q \<and> nodes w' q \<noteq> None}"
      using rel(2) by simp
  qed
  moreover have "distinct layout" "length layout = 13" by (simp_all add: layout_def)
  ultimately show ?thesis using kinds written_body layout_plan by blast
qed

lemma example_skill_dir:
  "skill_dir_of ''my-skill'' None example_world = example_target"
  by (simp add: skill_dir_of_def Path_cwd_def example_world_def
      example_target_def truediv_def Path_def splitroot_def)

text \<open>The example of the specification.\<close>

theorem scaffold_layout_witness:
  "create_skill_structure ''my-skill'' None example_world = Inr example_after
   \<and> ''..'' \<notin> set [''home'', ''u'', ''my-skill'']
   \<and> {q. strict_prefix [''home'', ''u'', ''my-skill''] q \<and> nodes example_after q \<noteq> None}
       = (\<lambda>rel. [''home'', ''u'', ''my-skill''] @ rel) ` set layout
   \<and> length (written (body ''my-skill'' example_target)) = 9"
proof -
  have p: "''..'' \<notin> set (path_tail (skill_dir_of ''my-skill'' None example_world))"
    by (simp add: example_skill_dir example_target_def)
  have e: "\<forall>q. strict_prefix (path_tail (skill_dir_of ''my-skill'' None example_world)) q
             \<longrightarrow> nodes example_world q = None"
    unfolding example_skill_dir example_target_def
    by (auto simp: example_world_def strict_prefix_def)
  from scaffold_layout [OF example_run p e] example_run
  show ?thesis by (simp add: example_skill_dir example_target_def)
qed

text \<open>
  The claim as stated counts eight files and nine entries. The successful example run
  writes nine files, to nine different paths, and each of them is a regular file at the
  end.
\<close>

theorem eight_files_counterexample:
  "main (Namespace ''my-skill'' None) example_world = (0, example_after)
   \<and> length (written (body ''my-skill'' example_target)) = 9
   \<and> distinct (map fst (written (body ''my-skill'' example_target)))
   \<and> list_all (holds_file example_after) (map fst (written (body ''my-skill'' example_target)))"
proof -
  from example_run have "main (Namespace ''my-skill'' None) example_world = (0, example_after)"
    by (simp add: main_def)
  moreover have "distinct (map fst (written (body ''my-skill'' example_target)))"
    by (simp add: written_body at_def)
  moreover have "list_all (holds_file example_after)
      (map fst (written (body ''my-skill'' example_target)))"
    by (simp add: written_body holds_file_def read_text_def at_def example_target_def
        example_after_def example_world_def ScaffoldPlan_def resolve_def start_def lookup_def)
  ultimately show ?thesis by (simp add: written_body)
qed

subsection \<open>The target and the name\<close>

lemma split_sep_plain: "CHR ''/'' \<notin> set s \<Longrightarrow> split_sep s = [s]"
  by (induction s) auto

lemma Path_plain: "plain_name name \<Longrightarrow> Path name = PurePath [] [name]"
  by (cases name) (auto simp: plain_name_def Path_def splitroot_def split_sep_plain)

lemma truediv_plain_name:
  "plain_name name \<Longrightarrow> truediv self name = PurePath (path_root self) (path_tail self @ [name])"
  by (simp add: truediv_def Path_plain)

text \<open>
  C4 (as amended). The target is \<^verbatim>\<open>Path(path)\<close> when \<^verbatim>\<open>--path\<close> is given and not empty,
  whatever the name; it is \<^verbatim>\<open>Path.cwd() / name\<close> when \<^verbatim>\<open>--path\<close> is omitted or empty. For a
  name that is one path component (not empty, not \<^verbatim>\<open>.\<close>, without a slash) this is the
  working directory extended by the name. The target is what the first statement creates.
\<close>

theorem target_resolution:
  "skill_dir_of name None w = truediv (Path_cwd w) name
   \<and> skill_dir_of name (Some []) w = truediv (Path_cwd w) name
   \<and> (p \<noteq> [] \<longrightarrow> skill_dir_of name (Some p) w = Path p
                    \<and> skill_dir_of name (Some p) w = skill_dir_of name' (Some p) w')
   \<and> (plain_name name \<longrightarrow> truediv (Path_cwd w) name = PurePath ''/'' (cwd w @ [name]))
   \<and> hd (body name (skill_dir_of name base w)) = Mkdir True True (skill_dir_of name base w)"
  by (simp add: skill_dir_of_def truediv_plain_name Path_cwd_def body_def)

text \<open>Two names with one path, and the example of the specification.\<close>

theorem target_resolution_witness:
  "skill_dir_of ''my-skill'' (Some ''/srv/skills/x'') example_world
     = PurePath ''/'' [''srv'', ''skills'', ''x'']
   \<and> skill_dir_of ''other'' (Some ''/srv/skills/x'') used_world
     = PurePath ''/'' [''srv'', ''skills'', ''x'']
   \<and> plain_name ''my-skill''
   \<and> skill_dir_of ''my-skill'' None example_world = PurePath ''/'' [''home'', ''u'', ''my-skill'']"
proof -
  note t = target_resolution [of "''my-skill''" example_world "''/srv/skills/x''" "''other''"
      used_world None]
  have pn: "plain_name ''my-skill''" by (simp add: plain_name_def)
  have ne: "''/srv/skills/x'' \<noteq> []" by simp
  have P: "Path ''/srv/skills/x'' = PurePath ''/'' [''srv'', ''skills'', ''x'']"
    by (simp add: Path_def splitroot_def)
  from t [THEN conjunct2, THEN conjunct2, THEN conjunct1, rule_format, OF ne]
  have a: "skill_dir_of ''my-skill'' (Some ''/srv/skills/x'') example_world
             = PurePath ''/'' [''srv'', ''skills'', ''x'']"
    "skill_dir_of ''other'' (Some ''/srv/skills/x'') used_world
             = PurePath ''/'' [''srv'', ''skills'', ''x'']"
    unfolding P by metis+
  from t [THEN conjunct2, THEN conjunct2, THEN conjunct2, THEN conjunct1, rule_format, OF pn]
    t [THEN conjunct1]
  have "skill_dir_of ''my-skill'' None example_world = PurePath ''/'' [''home'', ''u'', ''my-skill'']"
    by (simp add: example_world_def)
  with a pn show ?thesis by blast
qed

text \<open>
  The claim as stated, that the target is the \<^verbatim>\<open>--path\<close> argument whenever one is
  provided, fails for the empty path: \<^verbatim>\<open>--path ""\<close> is provided, and the target is built
  from the working directory and the name.
\<close>

theorem empty_path_counterexample:
  "skill_dir_of ''foo'' (Some []) example_world \<noteq> Path []
   \<and> skill_dir_of ''foo'' (Some []) example_world = PurePath ''/'' [''home'', ''u'', ''foo'']
   \<and> Path [] = PurePath [] []"
  by (simp add: skill_dir_of_def Path_cwd_def example_world_def truediv_def Path_def
      splitroot_def)






subsection \<open>\<^verbatim>\<open>skill.json\<close> as JSON\<close>

lemma scan_append:
  "scan s (xs @ ys) = (case scan s xs of None \<Rightarrow> None | Some s' \<Rightarrow> scan s' ys)"
  by (induction xs arbitrary: s) (auto split: option.splits)

lemma scan_safe:
  "list_all safe_char xs \<Longrightarrow> scan (In_string key, st, ex) xs = Some (In_string key, st, ex)"
  by (induction xs) (auto simp: safe_char_def)

lemma valid_safe_name:
  assumes "list_all safe_char name"
  shows "valid_json (skill_json_content name)"
proof -
  define A where \<open>A = ''{'' @ newline @ ''  "name": "''\<close>
  define B where \<open>B = ''",'' @ newline @ ''  "version": "0.1.0",''
        @ newline @ ''  "description": "Description of ''\<close>
  define C where \<open>C = ''",'' @ newline @ unlines
       [''  "author": "",'',
        ''  "license": "MIT",'',
        ''  "main": "src/main.py",'',
        ''  "dependencies": {}'',
        ''}'']\<close>
  have c: "skill_json_content name = A @ name @ B @ name @ C"
    by (simp add: skill_json_content_def unlines_def A_def B_def C_def)
  have 1: "scan (Idle, [], E_value) A = Some (In_string False, [In_object], E_value)"
    by (simp add: A_def newline_def idle_step_def is_ws_def expects_value_def)
  have 2: "scan (In_string False, [In_object], E_value) B
            = Some (In_string False, [In_object], E_value)"
    by (simp add: B_def newline_def idle_step_def is_ws_def expects_value_def value_done_def)
  have 3: "scan (In_string False, [In_object], E_value) C = Some (Idle, [], E_done)"
    by (simp add: C_def newline_def unlines_def idle_step_def is_ws_def expects_value_def
        value_done_def)
  from assms have n: "scan (In_string False, [In_object], E_value) name
      = Some (In_string False, [In_object], E_value)"
    by (rule scan_safe)
  show ?thesis
    unfolding valid_json_def c
    by (simp only: scan_append 1 2 3 n option.case accepting.simps)
qed

text \<open>
  C10 (as amended). For every name the text of \<^verbatim>\<open>skill.json\<close> has the name, as it is,
  between the quotes of the \<^verbatim>\<open>name\<close> field and, after \<^verbatim>\<open>Description of \<close>, between the
  quotes of the \<^verbatim>\<open>description\<close> field. So the name that is one double quote gives a
  file that is not valid JSON, while every name without double quote, backslash and
  control character gives valid JSON.
\<close>

theorem skill_json_unescaped:
  \<open>skill_json_content name = unlines
     [''{'',
      ''  "name": "'' @ name @ ''",'',
      ''  "version": "0.1.0",'',
      ''  "description": "'' @ (''Description of '' @ name) @ ''",'',
      ''  "author": "",'',
      ''  "license": "MIT",'',
      ''  "main": "src/main.py",'',
      ''  "dependencies": {}'',
      ''}'']
   \<and> \<not> valid_json (skill_json_content [CHR 0x22])
   \<and> (list_all safe_char name \<longrightarrow> valid_json (skill_json_content name))\<close>
proof -
  have \<open>\<not> valid_json (skill_json_content [CHR 0x22])\<close>
    by (simp add: valid_json_def skill_json_content_def unlines_def newline_def idle_step_def
        is_ws_def expects_value_def value_done_def is_digit_def)
  with valid_safe_name show ?thesis by (simp add: skill_json_content_def)
qed

text \<open>The name of the specification's example is a safe one.\<close>

theorem skill_json_unescaped_witness:
  \<open>list_all safe_char ''my-skill'' \<and> valid_json (skill_json_content ''my-skill'')
   \<and> \<not> valid_json (skill_json_content [CHR 0x22])\<close>
proof -
  have s: "list_all safe_char ''my-skill''" by (simp add: safe_char_def)
  with skill_json_unescaped [of "''my-skill''"] show ?thesis by blast
qed

text \<open>
  The claim as stated, that any name with a double quote gives invalid JSON, fails: a
  name can close the string and open another member, and the file is valid JSON again.
\<close>

theorem quoted_name_valid_counterexample:
  "CHR 0x22 \<in> set injected_name \<and> valid_json (skill_json_content injected_name)"
  by (simp add: injected_name_def valid_json_def skill_json_content_def unlines_def newline_def
      idle_step_def is_ws_def expects_value_def value_done_def is_digit_def)

end
